theory Spec2Isabelle
  imports Complex_Main "HOL-Library.AList"
begin

section \<open>Values, errors and string primitives\<close>

text \<open>
  The development embeds \<^verbatim>\<open>src/service/translationManger.js\<close> (class
  \<^verbatim>\<open>AwsTranslateManager\<close>). A JavaScript string is a list of characters, one
  character per code unit; the model covers the code units below 256. A parsed JSON
  document is a value of type \<open>json\<close>; an object is the list of its own properties in
  insertion order. A thrown \<^verbatim>\<open>Error\<close> is a value of type \<open>js_error\<close>, and a
  computation that may throw returns \<open>js_error + 'a\<close>.
\<close>

datatype json =
    JNull
  | JBool bool
  | JNum rat
  | JString string
  | JArray "json list"
  | JObject "(string \<times> json) list"

datatype js_error = JsError (name: string) (message: string)

text \<open>Truthiness, as the operators \<^verbatim>\<open>!\<close> and \<^verbatim>\<open>||\<close> test it.\<close>

fun truthy :: "json \<Rightarrow> bool" where
  "truthy JNull = False"
| "truthy (JBool b) = b"
| "truthy (JNum n) = (n \<noteq> 0)"
| "truthy (JString s) = (s \<noteq> [])"
| "truthy (JArray xs) = True"
| "truthy (JObject kvs) = True"

text \<open>
  \<^verbatim>\<open>String.prototype.toLowerCase\<close> on the code units below 256: the letters A to Z
  and the Latin-1 capitals (0xC0 to 0xDE without the multiplication sign 0xD7) move up
  by 32, every other character stays.
\<close>

definition lower_char :: "char \<Rightarrow> char" where
  "lower_char c =
     (let n = (of_char c :: nat)
      in if (65 \<le> n \<and> n \<le> 90) \<or> (192 \<le> n \<and> n \<le> 222 \<and> n \<noteq> 215)
         then char_of (n + 32) else c)"

definition toLowerCase :: "string \<Rightarrow> string" where
  "toLowerCase s = map lower_char s"

text \<open>
  \<^verbatim>\<open>String.prototype.trim\<close> removes white space and line terminators from both
  ends: tab, line feed, vertical tab, form feed, carriage return, space and the
  no-break space 0xA0.
\<close>

definition is_space :: "char \<Rightarrow> bool" where
  "is_space c = ((of_char c :: nat) \<in> {9, 10, 11, 12, 13, 32, 160})"

definition trim :: "string \<Rightarrow> string" where
  "trim s = rev (dropWhile is_space (rev (dropWhile is_space s)))"

text \<open>
  \<^verbatim>\<open>subject.replace(pattern, replacement)\<close> with a string pattern: the first
  occurrence of the pattern is replaced, a subject without the pattern is returned as
  it is. The class replaces by the empty string only, so the replacement is taken as
  it is written.
\<close>

fun replace :: "string \<Rightarrow> string \<Rightarrow> string \<Rightarrow> string" where
  "replace pat rep [] = (if pat = [] then rep else [])"
| "replace pat rep (c # cs) =
     (if take (length pat) (c # cs) = pat then rep @ drop (length pat) (c # cs)
      else c # replace pat rep cs)"

text \<open>
  \<^verbatim>\<open>rawText.split(/\r?\n/)\<close>: the text is cut at every line feed, and a carriage
  return directly before the line feed belongs to the separator. The result always has
  at least one element.
\<close>

fun split_lines :: "string \<Rightarrow> string list" where
  "split_lines [] = [[]]"
| "split_lines (c # cs) =
     (if c = CHR 0x0A then [] # split_lines cs
      else if c = CHR 0x0D \<and> take 1 cs = [CHR 0x0A] then [] # split_lines (drop 1 cs)
      else (case split_lines cs of
              l # ls \<Rightarrow> (c # l) # ls
            | [] \<Rightarrow> [[c]]))"

text \<open>
  \<^verbatim>\<open>subject.includes(pattern)\<close>: the pattern occurs somewhere in the subject.
\<close>

fun str_includes :: "string \<Rightarrow> string \<Rightarrow> bool" where
  "str_includes [] pat = (pat = [])"
| "str_includes (c # cs) pat = (take (length pat) (c # cs) = pat \<or> str_includes cs pat)"

section \<open>The manager and its collaborators\<close>

text \<open>
  A dictionary entry, and the fields of an \<^verbatim>\<open>AwsTranslateManager\<close> instance as
  the constructor leaves them. The in-memory store \<^verbatim>\<open>_dictionaryEntries\<close> is typed
  as a list of entries, which is the layout of a dictionary snapshot: a store that
  holds anything else, after loading a snapshot of another shape, is outside the model.
  The role identifier is optional.
\<close>

record entry =
  source :: string
  language :: string
  translation :: string

record manager =
  region :: string
  bucket :: string
  jsonKey :: string
  csvKey :: string
  customDictionaryName :: string
  iamRoleArn :: "string option"
  defaultTargetLanguage :: string
  dictionaryEntries :: "entry list"

text \<open>
  The input of \<^verbatim>\<open>TranslateTextCommand\<close> and of
  \<^verbatim>\<open>StartTextTranslationJobCommand\<close>. A key the object literal leaves out is
  \<open>None\<close>.
\<close>

record translate_command =
  Text :: json
  SourceLanguageCode :: string
  TargetLanguageCode :: string
  TerminologyNames :: "string list option"

record job_params =
  JobName :: string
  InputS3Uri :: string
  InputContentType :: string
  OutputS3Uri :: string
  DataAccessRoleArn :: string
  TargetLanguageCodes :: "string list"
  JobTerminologyNames :: "string list option"

text \<open>
  The collaborators the class calls and whose code is not part of it: the two service
  clients, the JSON built-ins and the CSV serialiser. A service call reads and changes
  the state \<open>'w\<close> of the world outside the process and either answers or throws.
  \<^item> \<open>s3_get b k\<close>: \<^verbatim>\<open>GetObjectCommand\<close> on bucket \<open>b\<close> and key \<open>k\<close>,
    followed by \<^verbatim>\<open>streamToString\<close>; the answer is the object's text.
  \<^item> \<open>s3_put b k body ct\<close>: \<^verbatim>\<open>PutObjectCommand\<close>; the answer is the service's
    result (its entity tag).
  \<^item> \<open>translate_send c\<close>: \<^verbatim>\<open>TranslateTextCommand\<close>; the answer is
    \<^verbatim>\<open>TranslatedText\<close>.
  \<^item> \<open>start_job p\<close>: \<^verbatim>\<open>StartTextTranslationJobCommand\<close>; the answer is
    \<^verbatim>\<open>JobId\<close>.
  \<^item> \<open>JSON_parse\<close>, \<open>JSON_stringify\<close>: the built-ins (the latter as called with
    indentation 2); \<open>JSON_parse_entries\<close> is \<^verbatim>\<open>JSON.parse\<close> on a dictionary
    snapshot, read at the type of the store.
  \<^item> \<open>csv_parse rows fields\<close>: \<^verbatim>\<open>parse\<close> of json2csv.
  The log and error-record sinks (\<^verbatim>\<open>Logger\<close>, \<^verbatim>\<open>ErrorHandler\<close>) return
  without effect on the results and are left out.
\<close>

record 'w env =
  s3_get :: "string \<Rightarrow> string \<Rightarrow> 'w \<Rightarrow> (js_error + string) \<times> 'w"
  s3_put :: "string \<Rightarrow> string \<Rightarrow> string \<Rightarrow> string \<Rightarrow> 'w \<Rightarrow> (js_error + string) \<times> 'w"
  translate_send :: "translate_command \<Rightarrow> 'w \<Rightarrow> (js_error + string) \<times> 'w"
  start_job :: "job_params \<Rightarrow> 'w \<Rightarrow> (js_error + string) \<times> 'w"
  JSON_parse :: "string \<Rightarrow> js_error + json"
  JSON_stringify :: "json \<Rightarrow> string"
  JSON_parse_entries :: "string \<Rightarrow> js_error + entry list"
  csv_parse :: "(string \<times> string) list list \<Rightarrow> string list \<Rightarrow> js_error + string"

text \<open>
  Every public method first passes its arguments through
  \<^verbatim>\<open>SafeUtils.sanitizeValidate\<close>, whose code is not part of the sources. Each
  method of the model takes it as its first argument \<open>sv\<close>: a function from the
  values of the schema to the validated \<^verbatim>\<open>params\<close>, or to the error it throws.
\<close>

section \<open>Single-text translation\<close>

definition terminology :: "manager \<Rightarrow> string list option" where
  "terminology m =
     (if customDictionaryName m \<noteq> [] then Some [customDictionaryName m] else None)"

definition translateText_command :: "manager \<Rightarrow> string \<Rightarrow> string \<Rightarrow> translate_command" where
  "translateText_command m text targetLang =
     \<lparr>Text = JString text, SourceLanguageCode = ''en'', TargetLanguageCode = targetLang,
      TerminologyNames = terminology m\<rparr>"

definition translateText ::
  "(string \<times> string \<Rightarrow> js_error + string \<times> string) \<Rightarrow> 'w env \<Rightarrow> manager \<Rightarrow>
   string \<Rightarrow> string option \<Rightarrow> 'w \<Rightarrow> (js_error + string) \<times> 'w" where
  "translateText sv env m text targetLang w =
     (case sv (text, case targetLang of None \<Rightarrow> defaultTargetLanguage m | Some l \<Rightarrow> l) of
        Inl e \<Rightarrow> (Inl e, w)
      | Inr (ptext, plang) \<Rightarrow>
          (case translate_send env (translateText_command m ptext plang) w of
             (Inr translated, w') \<Rightarrow> (Inr translated, w')
           | (Inl err, w') \<Rightarrow> (Inl (JsError ''Error'' ''Translation failed''), w')))"

section \<open>Bulk translation\<close>

subsection \<open>Parsing the input into units\<close>

text \<open>
  Property access \<^verbatim>\<open>entry?.key\<close> and \<^verbatim>\<open>parsed.translations\<close> for the property
  names the class reads; \<open>None\<close> is \<^verbatim>\<open>undefined\<close>. Without the \<^verbatim>\<open>?.\<close> the
  access throws a \<^verbatim>\<open>TypeError\<close> on \<^verbatim>\<open>null\<close>.
\<close>

fun get_prop :: "json \<Rightarrow> string \<Rightarrow> json option" where
  "get_prop (JObject kvs) k = map_of kvs k"
| "get_prop j k = None"

definition prop_strict :: "json \<Rightarrow> string \<Rightarrow> js_error + json option" where
  "prop_strict j k =
     (if j = JNull then Inl (JsError ''TypeError'' ''Cannot read properties of null'')
      else Inr (get_prop j k))"

fun isArray :: "json option \<Rightarrow> bool" where
  "isArray (Some (JArray xs)) = True"
| "isArray j = False"

fun elements :: "json option \<Rightarrow> json list" where
  "elements (Some (JArray xs)) = xs"
| "elements j = []"

text \<open>
  The body of the inner \<^verbatim>\<open>try\<close>: the parsed array, the array under
  \<^verbatim>\<open>translations\<close>, or the empty array, and a throw when that choice is empty.
\<close>

definition json_items :: "'w env \<Rightarrow> string \<Rightarrow> js_error + json list" where
  "json_items env rawText =
     (case JSON_parse env rawText of
        Inl e \<Rightarrow> Inl e
      | Inr parsed \<Rightarrow>
          (case (if isArray (Some parsed) then Inr (elements (Some parsed))
                 else (case prop_strict parsed ''translations'' of
                         Inl e \<Rightarrow> Inl e
                       | Inr t \<Rightarrow> Inr (if isArray t then elements t else []))) of
             Inl e \<Rightarrow> Inl e
           | Inr items \<Rightarrow>
               if length items = 0
               then Inl (JsError ''Error''
                      ''Parsed JSON did not contain an array of translatable items.'')
               else Inr items))"

text \<open>The \<^verbatim>\<open>catch\<close>: the non-blank lines of the raw text.\<close>

definition line_items :: "string \<Rightarrow> json list" where
  "line_items rawText = map JString (filter (\<lambda>line. trim line \<noteq> []) (split_lines rawText))"

definition parse_items :: "'w env \<Rightarrow> string \<Rightarrow> json list" where
  "parse_items env rawText =
     (case json_items env rawText of
        Inr items \<Rightarrow> items
      | Inl e \<Rightarrow> line_items rawText)"

subsection \<open>The translation loop\<close>

fun truthy_opt :: "json option \<Rightarrow> bool" where
  "truthy_opt None = False"
| "truthy_opt (Some j) = truthy j"

text \<open>The operator \<^verbatim>\<open>a || b\<close>.\<close>

definition js_or :: "json option \<Rightarrow> json option \<Rightarrow> json option" where
  "js_or a b = (if truthy_opt a then a else b)"

fun is_string :: "json \<Rightarrow> bool" where
  "is_string (JString s) = True"
| "is_string j = False"

definition extract_text :: "json \<Rightarrow> json option" where
  "extract_text entry =
     (if is_string entry then Some entry
      else js_or (js_or (get_prop entry ''Text'') (get_prop entry ''text'')) (get_prop entry ''source''))"

text \<open>
  An object is the list of its own properties. The assignment \<^verbatim>\<open>obj[key] = v\<close>
  overwrites the value of an existing key in place and appends a new key; the spread
  \<^verbatim>\<open>{ original: text, ...resultsPerLang }\<close> makes the same assignments on the
  object \<^verbatim>\<open>{ original: text }\<close>, in the order of \<open>resultsPerLang\<close>. The keys
  are language tags: a key that is an array index (which an object enumerates first)
  and the accessor \<^verbatim>\<open>__proto__\<close> are not modelled. The statements about the values
  of a record read it through \<open>map_of\<close> and do not depend on the order of its keys.
\<close>

definition spread :: "(string \<times> json) list \<Rightarrow> (string \<times> json) list \<Rightarrow> (string \<times> json) list" where
  "spread obj props = fold (\<lambda>(k, v). AList.update k v) props obj"

definition manual_command :: "json \<Rightarrow> string \<Rightarrow> translate_command" where
  "manual_command text lang =
     \<lparr>Text = text, SourceLanguageCode = ''en'', TargetLanguageCode = lang,
      TerminologyNames = None\<rparr>"

fun translate_langs ::
  "'w env \<Rightarrow> json \<Rightarrow> string list \<Rightarrow> (string \<times> json) list \<Rightarrow> 'w \<Rightarrow> (string \<times> json) list \<times> 'w" where
  "translate_langs env text [] resultsPerLang w = (resultsPerLang, w)"
| "translate_langs env text (lang # langs) resultsPerLang w =
     (case translate_send env (manual_command text lang) w of
        (Inr translated, w') \<Rightarrow>
          translate_langs env text langs (AList.update lang (JString translated) resultsPerLang) w'
      | (Inl translationError, w') \<Rightarrow>
          translate_langs env text langs (AList.update lang JNull resultsPerLang) w')"

fun translate_items ::
  "'w env \<Rightarrow> string list \<Rightarrow> json list \<Rightarrow> json list \<Rightarrow> 'w \<Rightarrow> json list \<times> 'w" where
  "translate_items env targetLangs [] translated w = (translated, w)"
| "translate_items env targetLangs (entry # items) translated w =
     (case extract_text entry of
        None \<Rightarrow> translate_items env targetLangs items translated w
      | Some text \<Rightarrow>
          if \<not> truthy text then translate_items env targetLangs items translated w
          else (case translate_langs env text targetLangs [] w of
                  (resultsPerLang, w') \<Rightarrow>
                    translate_items env targetLangs items
                      (translated @ [JObject (spread [(''original'', text)] resultsPerLang)]) w'))"

subsection \<open>The operation\<close>

definition s3_key :: "manager \<Rightarrow> string \<Rightarrow> string" where
  "s3_key m uri = replace (''s3://'' @ bucket m @ ''/'') [] uri"

definition manual_failed :: "js_error \<Rightarrow> js_error" where
  "manual_failed err = JsError ''Error'' (''Manual translation failed: '' @ message err)"

definition manual_translation ::
  "'w env \<Rightarrow> manager \<Rightarrow> string \<times> string \<times> string list \<Rightarrow> 'w \<Rightarrow> (js_error + string) \<times> 'w" where
  "manual_translation env m params w =
     (case params of (inputS3Uri, outputS3Uri, targetLangs) \<Rightarrow>
        (case s3_get env (bucket m) (s3_key m inputS3Uri) w of
           (Inl err, w1) \<Rightarrow> (Inl (manual_failed err), w1)
         | (Inr rawText, w1) \<Rightarrow>
             (case translate_items env targetLangs (parse_items env rawText) [] w1 of
                (translated, w2) \<Rightarrow>
                  (case s3_put env (bucket m) (s3_key m outputS3Uri)
                          (JSON_stringify env (JArray translated)) ''application/json'' w2 of
                     (Inl err, w3) \<Rightarrow> (Inl (manual_failed err), w3)
                   | (Inr result, w3) \<Rightarrow> (Inr ''manual-job-done'', w3)))))"

text \<open>
  The job name carries \<^verbatim>\<open>Date.now()\<close>; its decimal digits are the argument
  \<open>now\<close>. An absent or empty role identifier selects the manual fallback.
\<close>

definition job_request :: "manager \<Rightarrow> string \<Rightarrow> string \<Rightarrow> string \<times> string \<times> string list \<Rightarrow> job_params" where
  "job_request m role now params =
     (case params of (inputS3Uri, outputS3Uri, targetLangs) \<Rightarrow>
        \<lparr>JobName = ''bulk-translate-'' @ now, InputS3Uri = inputS3Uri,
         InputContentType = ''application/json'', OutputS3Uri = outputS3Uri,
         DataAccessRoleArn = role, TargetLanguageCodes = targetLangs,
         JobTerminologyNames = terminology m\<rparr>)"

definition startBulkTranslation ::
  "(string \<times> string \<times> string list \<Rightarrow> js_error + string \<times> string \<times> string list) \<Rightarrow>
   'w env \<Rightarrow> manager \<Rightarrow> string \<Rightarrow> string \<Rightarrow> string \<Rightarrow> string list option \<Rightarrow> 'w \<Rightarrow>
   (js_error + string) \<times> 'w" where
  "startBulkTranslation sv env m now inputS3Uri outputS3Uri targetLangs w =
     (case sv (inputS3Uri, outputS3Uri,
               case targetLangs of None \<Rightarrow> [defaultTargetLanguage m] | Some ls \<Rightarrow> ls) of
        Inl e \<Rightarrow> (Inl e, w)
      | Inr params \<Rightarrow>
          (case iamRoleArn m of
             None \<Rightarrow> manual_translation env m params w
           | Some role \<Rightarrow>
               if role = [] then manual_translation env m params w
               else (case start_job env (job_request m role now params) w of
                       (Inr jobId, w') \<Rightarrow> (Inr jobId, w')
                     | (Inl err, w') \<Rightarrow>
                         (Inl (JsError ''Error'' ''Bulk translation job failed''), w'))))"



definition unit_record :: "'w env \<Rightarrow> string list \<Rightarrow> json \<Rightarrow> 'w \<Rightarrow> json" where
  "unit_record env targetLangs t w =
     JObject (spread [(''original'', t)] (fst (translate_langs env t targetLangs [] w)))"

section \<open>The dictionary store\<close>



subsection \<open>Loading\<close>

definition isMissingFile :: "js_error \<Rightarrow> bool" where
  "isMissingFile err =
     (name err = ''NoSuchKey'' \<or>
      str_includes (message err) ''The specified key does not exist'')"

definition load_failed :: "js_error \<Rightarrow> js_error" where
  "load_failed err = JsError ''Error'' (''Failed to load dictionary: '' @ message err)"

text \<open>The \<^verbatim>\<open>catch\<close> block of \<^verbatim>\<open>loadCustomDictionaryJson\<close>.\<close>

definition load_catch :: "js_error \<Rightarrow> manager \<Rightarrow> (js_error + entry list) \<times> manager" where
  "load_catch err m =
     (if isMissingFile err then (Inr [], m\<lparr>dictionaryEntries := []\<rparr>)
      else (Inl (load_failed err), m))"

definition loadCustomDictionaryJson ::
  "'w env \<Rightarrow> manager \<Rightarrow> 'w \<Rightarrow> (js_error + entry list) \<times> manager \<times> 'w" where
  "loadCustomDictionaryJson env m w =
     (case s3_get env (bucket m) (jsonKey m) w of
        (Inl err, w') \<Rightarrow> (case load_catch err m of (r, m') \<Rightarrow> (r, m', w'))
      | (Inr jsonStr, w') \<Rightarrow>
          (case JSON_parse_entries env jsonStr of
             Inl err \<Rightarrow> (case load_catch err m of (r, m') \<Rightarrow> (r, m', w'))
           | Inr entries \<Rightarrow> (Inr entries, m\<lparr>dictionaryEntries := entries\<rparr>, w')))"

subsection \<open>Adding and updating\<close>

text \<open>
  \<^verbatim>\<open>Array.prototype.findIndex\<close>; \<open>None\<close> is the result \<^verbatim>\<open>-1\<close>. The value
  the method returns is a message built from one of two templates and the validated
  source and language.
\<close>

fun findIndex :: "('a \<Rightarrow> bool) \<Rightarrow> 'a list \<Rightarrow> nat option" where
  "findIndex p [] = None"
| "findIndex p (x # xs) = (if p x then Some 0 else map_option Suc (findIndex p xs))"

datatype report = Updated_entry string string | Added_new_entry string string

definition same_key :: "string \<Rightarrow> string \<Rightarrow> entry \<Rightarrow> bool" where
  "same_key psource ptargetLang e =
     (toLowerCase (source e) = toLowerCase psource \<and>
      toLowerCase (language e) = toLowerCase ptargetLang)"

text \<open>
  On a store of entries nothing in the \<^verbatim>\<open>try\<close> block throws, so the
  \<^verbatim>\<open>catch\<close> block has no branch here.
\<close>

definition addOrUpdateDictionaryEntry ::
  "(string \<times> string \<times> string \<Rightarrow> js_error + string \<times> string \<times> string) \<Rightarrow>
   string \<Rightarrow> string \<Rightarrow> string \<Rightarrow> manager \<Rightarrow> (js_error + report) \<times> manager" where
  "addOrUpdateDictionaryEntry sv src targetLang trn m =
     (case sv (src, targetLang, trn) of
        Inl e \<Rightarrow> (Inl e, m)
      | Inr (psource, ptargetLang, ptranslation) \<Rightarrow>
          (case findIndex (same_key psource ptargetLang) (dictionaryEntries m) of
             Some idx \<Rightarrow>
               (Inr (Updated_entry psource ptargetLang),
                m\<lparr>dictionaryEntries :=
                    (dictionaryEntries m)
                      [idx := (dictionaryEntries m ! idx)\<lparr>translation := ptranslation\<rparr>]\<rparr>)
           | None \<Rightarrow>
               (Inr (Added_new_entry psource ptargetLang),
                m\<lparr>dictionaryEntries :=
                    dictionaryEntries m @
                      [\<lparr>source = psource, language = ptargetLang,
                        translation = ptranslation\<rparr>]\<rparr>)))"

text \<open>The identity key the lookup compares, and the uniqueness invariant of a store.\<close>

definition entry_key :: "entry \<Rightarrow> string \<times> string" where
  "entry_key e = (toLowerCase (source e), toLowerCase (language e))"

definition unique_keys :: "entry list \<Rightarrow> bool" where
  "unique_keys es = distinct (map entry_key es)"

subsection \<open>Saving\<close>


section \<open>CSV export\<close>








section \<open>The stated rules, as functions\<close>


text \<open>
  The text of a unit under the rule "the first present value": the unit itself when it
  is a string, else the value of the first of the fields \<^verbatim>\<open>Text\<close>,
  \<^verbatim>\<open>text\<close>, \<^verbatim>\<open>source\<close> that the unit has. And under the rule "the first
  truthy value": the first of the three values that is neither absent, \<^verbatim>\<open>null\<close>,
  \<^verbatim>\<open>false\<close>, zero nor the empty string.
\<close>

fun first_present :: "json option list \<Rightarrow> json option" where
  "first_present [] = None"
| "first_present (None # vs) = first_present vs"
| "first_present (Some v # vs) = Some v"

definition first_present_text :: "json \<Rightarrow> json option" where
  "first_present_text entry =
     (if is_string entry then Some entry
      else first_present
             [get_prop entry ''Text'', get_prop entry ''text'', get_prop entry ''source''])"

fun first_truthy :: "json option list \<Rightarrow> json option" where
  "first_truthy [] = None"
| "first_truthy (v # vs) = (if truthy_opt v then v else first_truthy vs)"

definition first_truthy_text :: "json \<Rightarrow> json option" where
  "first_truthy_text entry =
     (if is_string entry then first_truthy [Some entry]
      else first_truthy
             [get_prop entry ''Text'', get_prop entry ''text'', get_prop entry ''source''])"


section \<open>An in-memory environment\<close>

text \<open>
  A manager configured as the runner of the repository configures it, and an
  environment for the examples: the object store is a list of bodies by bucket and
  key, a missing key answers with the error \<^verbatim>\<open>NoSuchKey\<close>, the translator is a
  function of the request, and the JSON built-ins are given by their values on the
  texts of the example.
\<close>

definition example_manager :: manager where
  "example_manager =
     \<lparr>region = ''us-east-1'', bucket = ''abhisesbucket'', jsonKey = ''input/translations.json'',
      csvKey = ''costume_terminology.csv'', customDictionaryName = ''my-translate-overrides'',
      iamRoleArn = None, defaultTargetLanguage = ''fr'', dictionaryEntries = []\<rparr>"

definition store_get ::
  "string \<Rightarrow> string \<Rightarrow> ((string \<times> string) \<times> string) list \<Rightarrow>
   (js_error + string) \<times> ((string \<times> string) \<times> string) list" where
  "store_get b k w =
     (case map_of w (b, k) of
        None \<Rightarrow> (Inl (JsError ''NoSuchKey'' ''The specified key does not exist.''), w)
      | Some body \<Rightarrow> (Inr body, w))"

definition store_put ::
  "string \<Rightarrow> string \<Rightarrow> string \<Rightarrow> string \<Rightarrow> ((string \<times> string) \<times> string) list \<Rightarrow>
   (js_error + string) \<times> ((string \<times> string) \<times> string) list" where
  "store_put b k body ct w = (Inr ''etag'', AList.update (b, k) body w)"

definition table_parse :: "(string \<times> 'a) list \<Rightarrow> string \<Rightarrow> js_error + 'a" where
  "table_parse table s =
     (case map_of table s of
        None \<Rightarrow> Inl (JsError ''SyntaxError'' ''Unexpected token'')
      | Some v \<Rightarrow> Inr v)"

definition memory_env ::
  "(translate_command \<Rightarrow> js_error + string) \<Rightarrow> (string \<times> json) list \<Rightarrow> (json \<Rightarrow> string) \<Rightarrow>
   (string \<times> entry list) list \<Rightarrow> ((string \<times> string) \<times> string) list env" where
  "memory_env translator parsed stringify snapshots =
     \<lparr>s3_get = store_get, s3_put = store_put,
      translate_send = (\<lambda>c w. (translator c, w)),
      start_job = (\<lambda>p w. (Inl (JsError ''AccessDeniedException'' ''no role''), w)),
      JSON_parse = table_parse parsed, JSON_stringify = stringify,
      JSON_parse_entries = table_parse snapshots,
      csv_parse = (\<lambda>rows fs. Inr [])\<rparr>"

text \<open>A translator that answers \<^verbatim>\<open>bonjour\<close> for French and throws for any other language.\<close>

definition french_only :: "translate_command \<Rightarrow> js_error + string" where
  "french_only c =
     (if TargetLanguageCode c = ''fr'' then Inr ''bonjour''
      else Inl (JsError ''UnsupportedLanguagePairException'' ''Unsupported language pair''))"

text \<open>
  A translator that tells whether the request names a terminology.
\<close>

definition terminology_probe :: "translate_command \<Rightarrow> js_error + string" where
  "terminology_probe c =
     (case TerminologyNames c of
        None \<Rightarrow> Inr ''no terminology''
      | Some names \<Rightarrow> Inr ''terminology applied'')"

section \<open>Parsing the bulk input\<close>




lemma line_items_blank_lines:
  "line_items ''a\<newline>\<newline>b\<newline>'' = [JString ''a'', JString ''b'']"
  by (simp add: line_items_def trim_def is_space_def)

lemma startBulkTranslation_manual:
  assumes "sv (inputS3Uri, outputS3Uri, targetLangs) = Inr params"
    and "iamRoleArn m = None \<or> iamRoleArn m = Some []"
  shows "startBulkTranslation sv env m now inputS3Uri outputS3Uri (Some targetLangs) w =
         manual_translation env m params w"
  using assms by (auto simp: startBulkTranslation_def)



section \<open>The translation loop\<close>

text \<open>
  The accumulator of the outer loop only grows at its end, a unit without text leaves
  the loop's state as it is, and a unit with text adds the record of that unit.
\<close>

lemma translate_items_acc:
  "translate_items env ls items acc w =
     (acc @ fst (translate_items env ls items [] w), snd (translate_items env ls items [] w))"
proof (induction items arbitrary: acc w)
  case Nil
  show ?case by simp
next
  case (Cons entry items)
  show ?case
  proof (cases "extract_text entry")
    case None
    then show ?thesis using Cons.IH [of acc w] by simp
  next
    case (Some t)
    show ?thesis
    proof (cases "truthy t")
      case False
      then show ?thesis using Some Cons.IH [of acc w] by simp
    next
      case True
      obtain rpl w' where tl: "translate_langs env t ls [] w = (rpl, w')"
        by (cases "translate_langs env t ls [] w")
      let ?r = "JObject (spread [(''original'', t)] rpl)"
      have a: "translate_items env ls items (acc @ [?r]) w' =
               ((acc @ [?r]) @ fst (translate_items env ls items [] w'),
                snd (translate_items env ls items [] w'))"
        by (rule Cons.IH)
      have b: "translate_items env ls items ([] @ [?r]) w' =
               (([] @ [?r]) @ fst (translate_items env ls items [] w'),
                snd (translate_items env ls items [] w'))"
        by (rule Cons.IH)
      show ?thesis using True Some tl a b by simp
    qed
  qed
qed

lemma translate_items_skip:
  "\<not> truthy_opt (extract_text entry) \<Longrightarrow>
   translate_items env ls (entry # items) acc w = translate_items env ls items acc w"
  by (cases "extract_text entry") auto

lemma translate_items_keep:
  assumes "extract_text entry = Some t" and "truthy t"
  shows "translate_items env ls (entry # items) [] w =
         (unit_record env ls t w #
            fst (translate_items env ls items [] (snd (translate_langs env t ls [] w))),
          snd (translate_items env ls items [] (snd (translate_langs env t ls [] w))))"
proof -
  obtain rpl w' where tl: "translate_langs env t ls [] w = (rpl, w')"
    by (cases "translate_langs env t ls [] w")
  show ?thesis
    using assms tl translate_items_acc [of env ls items "[unit_record env ls t w]" w']
    by (simp add: unit_record_def)
qed











lemma first_truthy_text_None:
  "first_truthy_text entry = None \<Longrightarrow> \<not> truthy_opt (extract_text entry)"
  by (auto simp: first_truthy_text_def extract_text_def js_or_def split: if_splits)

lemma first_truthy_text_Some:
  "first_truthy_text entry = Some t \<Longrightarrow> extract_text entry = Some t \<and> truthy t"
  by (auto simp: first_truthy_text_def extract_text_def js_or_def split: if_splits)

lemmas example_defs =
  memory_env_def store_get_def store_put_def table_parse_def french_only_def
  example_manager_def s3_key_def manual_command_def

text \<open>
  Claim C9, as amended. The text of a unit is the unit itself when the unit is a string;
  otherwise it is the first truthy value among the fields \<^verbatim>\<open>Text\<close>, \<^verbatim>\<open>text\<close>
  and \<^verbatim>\<open>source\<close>, in that order: a field that is absent, \<^verbatim>\<open>null\<close>,
  \<^verbatim>\<open>false\<close>, zero or the empty string is passed over. A unit that yields no such
  text (the empty string included) is skipped: the loop goes on with the next unit,
  with the output and the services' state unchanged and without an error. A unit that
  yields a text contributes exactly the record of that text.
\<close>

theorem extract_text_first_truthy:
  "(first_truthy_text entry = None \<longrightarrow>
      translate_items env targetLangs (entry # items) translated w =
      translate_items env targetLangs items translated w) \<and>
   (\<forall>t. first_truthy_text entry = Some t \<longrightarrow>
      extract_text entry = Some t \<and> truthy t \<and>
      fst (translate_items env targetLangs (entry # items) [] w) =
        unit_record env targetLangs t w #
        fst (translate_items env targetLangs items []
               (snd (translate_langs env t targetLangs [] w))))"
proof (intro conjI impI allI)
  assume "first_truthy_text entry = None"
  then show "translate_items env targetLangs (entry # items) translated w =
      translate_items env targetLangs items translated w"
    by (intro translate_items_skip first_truthy_text_None)
next
  fix t assume a: "first_truthy_text entry = Some t"
  then show "extract_text entry = Some t" and "truthy t"
    using first_truthy_text_Some by blast+
  then show "fst (translate_items env targetLangs (entry # items) [] w) =
        unit_record env targetLangs t w #
        fst (translate_items env targetLangs items []
               (snd (translate_langs env t targetLangs [] w)))"
    by (simp only: translate_items_keep fst_conv)
qed

text \<open>
  The rule as the claim words it, "the first present value is used", fails on a unit whose
  \<^verbatim>\<open>Text\<close> field is present and empty: the code goes on to the \<^verbatim>\<open>text\<close> field.
\<close>

theorem first_present_counterexample:
  "extract_text (JObject [(''Text'', JString []), (''text'', JString ''hi'')]) = Some (JString ''hi'') \<and>
   first_present_text (JObject [(''Text'', JString []), (''text'', JString ''hi'')]) = Some (JString []) \<and>
   extract_text (JObject [(''Text'', JString []), (''text'', JString ''hi'')]) \<noteq>
   first_present_text (JObject [(''Text'', JString []), (''text'', JString ''hi'')])"
  by (simp add: extract_text_def first_present_text_def js_or_def)

theorem extract_text_first_truthy_witness:
  "translate_items (memory_env french_only [] (\<lambda>j. []) []) [''fr'']
     [JObject [(''Text'', JString [])], JNum 5] [] [] = ([], []) \<and>
   fst (translate_items (memory_env french_only [] (\<lambda>j. []) []) [''fr'']
          [JObject [(''Text'', JString []), (''text'', JString ''hi'')]] [] []) =
     [JObject [(''original'', JString ''hi''), (''fr'', JString ''bonjour'')]]"
proof -
  let ?env = "memory_env french_only [] (\<lambda>j. []) []"
  let ?a = "JObject [(''Text'', JString [])]"
  let ?b = "JObject [(''Text'', JString []), (''text'', JString ''hi'')]"
  have na: "first_truthy_text ?a = None" and nb: "first_truthy_text (JNum 5) = None"
    and sb: "first_truthy_text ?b = Some (JString ''hi'')"
    by (simp_all add: first_truthy_text_def)
  have "translate_items ?env [''fr''] [?a, JNum 5] [] [] = translate_items ?env [''fr''] [JNum 5] [] []"
    by (rule extract_text_first_truthy [of ?a ?env "[''fr'']" "[JNum 5]" "[]" "[]",
          THEN conjunct1, THEN mp, OF na])
  also have "\<dots> = translate_items ?env [''fr''] [] [] []"
    by (rule extract_text_first_truthy [of "JNum 5" ?env "[''fr'']" "[]" "[]" "[]",
          THEN conjunct1, THEN mp, OF nb])
  finally have 1: "translate_items ?env [''fr''] [?a, JNum 5] [] [] = ([], [])" by simp
  have "fst (translate_items ?env [''fr''] [?b] [] []) =
        unit_record ?env [''fr''] (JString ''hi'') [] #
        fst (translate_items ?env [''fr''] [] []
               (snd (translate_langs ?env (JString ''hi'') [''fr''] [] [])))"
    using extract_text_first_truthy [of ?b ?env "[''fr'']" "[]" "[]" "[]",
          THEN conjunct2, THEN spec, THEN mp, OF sb] by blast
  then have 2: "fst (translate_items ?env [''fr''] [?b] [] []) =
     [JObject [(''original'', JString ''hi''), (''fr'', JString ''bonjour'')]]"
    by (simp add: unit_record_def spread_def example_defs)
  show ?thesis using 1 2 by (rule conjI)
qed







text \<open>
  Claim C3. The request of the manual loop and the request of \<^verbatim>\<open>translateText\<close>
  for the same text and language, on a manager with the custom terminology
  \<^verbatim>\<open>my-translate-overrides\<close>: both fix the source language \<^verbatim>\<open>en\<close>, but only
  \<^verbatim>\<open>translateText\<close> names the terminology. A translator that tells the two apart
  answers \<^verbatim>\<open>terminology applied\<close> to \<^verbatim>\<open>translateText\<close> and
  \<^verbatim>\<open>no terminology\<close> to the manual loop.
\<close>

theorem manual_request_without_terminology:
  "translateText_command example_manager ''hello'' ''fr'' =
     \<lparr>Text = JString ''hello'', SourceLanguageCode = ''en'', TargetLanguageCode = ''fr'',
      TerminologyNames = Some [''my-translate-overrides'']\<rparr> \<and>
   manual_command (JString ''hello'') ''fr'' =
     \<lparr>Text = JString ''hello'', SourceLanguageCode = ''en'', TargetLanguageCode = ''fr'',
      TerminologyNames = None\<rparr> \<and>
   fst (translateText Inr
      (memory_env terminology_probe [(''[\"hello\"]'', JArray [JString ''hello''])] stringify [])
      example_manager ''hello'' (Some ''fr'') []) = Inr ''terminology applied'' \<and>
   startBulkTranslation Inr
     (memory_env terminology_probe [(''[\"hello\"]'', JArray [JString ''hello''])] stringify [])
     example_manager now
     ''s3://abhisesbucket/input/hello.json'' ''s3://abhisesbucket/output/hello.json''
     (Some [''fr''])
     [((''abhisesbucket'', ''input/hello.json''), ''[\"hello\"]'')] =
   (Inr ''manual-job-done'',
    [((''abhisesbucket'', ''input/hello.json''), ''[\"hello\"]''),
     ((''abhisesbucket'', ''output/hello.json''),
      stringify (JArray [JObject [(''original'', JString ''hello''),
                                  (''fr'', JString ''no terminology'')]]))])"
  by (simp add: startBulkTranslation_def manual_translation_def example_defs
        parse_items_def json_items_def extract_text_def spread_def
        translateText_def translateText_command_def terminology_def terminology_probe_def)

section \<open>Loading the dictionary\<close>

text \<open>
  Claim C6. When the fetch of the configured key fails with the missing-key error of
  the storage service (the error named \<^verbatim>\<open>NoSuchKey\<close>, or one whose message says
  that the specified key does not exist), \<^verbatim>\<open>loadCustomDictionaryJson\<close> returns the
  empty dictionary and sets the in-memory store to empty; it raises no error.
\<close>

theorem load_missing_key_empty:
  assumes "s3_get env (bucket m) (jsonKey m) w = (Inl err, w')"
    and "isMissingFile err"
  shows "loadCustomDictionaryJson env m w = (Inr [], m\<lparr>dictionaryEntries := []\<rparr>, w')"
  using assms by (simp add: loadCustomDictionaryJson_def load_catch_def)

theorem load_missing_key_empty_witness:
  "loadCustomDictionaryJson (memory_env french_only [] (\<lambda>j. []) [])
     (example_manager\<lparr>dictionaryEntries :=
        [\<lparr>source = ''hello'', language = ''fr'', translation = ''bonjour''\<rparr>]\<rparr>) [] =
   (Inr [], example_manager, [])"
proof -
  let ?env = "memory_env french_only [] (\<lambda>j. []) []"
  let ?m = "example_manager\<lparr>dictionaryEntries :=
        [\<lparr>source = ''hello'', language = ''fr'', translation = ''bonjour''\<rparr>]\<rparr>"
  let ?err = "JsError ''NoSuchKey'' ''The specified key does not exist.''"
  have get: "s3_get ?env (bucket ?m) (jsonKey ?m) [] = (Inl ?err, [])"
    by (simp add: memory_env_def store_get_def)
  have missing: "isMissingFile ?err" by (simp add: isMissingFile_def)
  have "?m\<lparr>dictionaryEntries := []\<rparr> = example_manager" by (simp add: example_manager_def)
  then show ?thesis using load_missing_key_empty [OF get missing] by simp
qed

text \<open>
  Claim C7. When the fetch fails, or the fetched text fails to parse, with any error
  that is not the missing-key error, \<^verbatim>\<open>loadCustomDictionaryJson\<close> raises an error
  and the manager, its in-memory store included, is exactly as before the call.
\<close>

theorem load_fault_keeps_store:
  assumes "\<not> isMissingFile err"
    and "s3_get env (bucket m) (jsonKey m) w = (Inl err, w') \<or>
         (\<exists>jsonStr. s3_get env (bucket m) (jsonKey m) w = (Inr jsonStr, w') \<and>
                    JSON_parse_entries env jsonStr = Inl err)"
  shows "loadCustomDictionaryJson env m w = (Inl (load_failed err), m, w')"
  using assms by (auto simp: loadCustomDictionaryJson_def load_catch_def)

theorem load_fault_keeps_store_witness:
  "loadCustomDictionaryJson (memory_env french_only [] (\<lambda>j. []) [])
     (example_manager\<lparr>dictionaryEntries :=
        [\<lparr>source = ''hello'', language = ''fr'', translation = ''bonjour''\<rparr>]\<rparr>)
     [((''abhisesbucket'', ''input/translations.json''), ''not json'')] =
   (Inl (JsError ''Error'' ''Failed to load dictionary: Unexpected token''),
    example_manager\<lparr>dictionaryEntries :=
        [\<lparr>source = ''hello'', language = ''fr'', translation = ''bonjour''\<rparr>]\<rparr>,
    [((''abhisesbucket'', ''input/translations.json''), ''not json'')])"
proof -
  let ?env = "memory_env french_only [] (\<lambda>j. []) []"
  let ?m = "example_manager\<lparr>dictionaryEntries :=
        [\<lparr>source = ''hello'', language = ''fr'', translation = ''bonjour''\<rparr>]\<rparr>"
  let ?w = "[((''abhisesbucket'', ''input/translations.json''), ''not json'')]"
  let ?err = "JsError ''SyntaxError'' ''Unexpected token''"
  have get: "s3_get ?env (bucket ?m) (jsonKey ?m) ?w = (Inr ''not json'', ?w)"
    by (simp add: memory_env_def store_get_def example_manager_def)
  have parse: "JSON_parse_entries ?env ''not json'' = Inl ?err"
    by (simp add: memory_env_def table_parse_def)
  have other: "\<not> isMissingFile ?err" by (simp add: isMissingFile_def)
  have "loadCustomDictionaryJson ?env ?m ?w = (Inl (load_failed ?err), ?m, ?w)"
    using get parse by (intro load_fault_keeps_store [OF other]) blast
  then show ?thesis by (simp add: load_failed_def)
qed

section \<open>Adding and updating entries\<close>

lemma findIndex_None: "findIndex p xs = None \<longleftrightarrow> (\<forall>x\<in>set xs. \<not> p x)"
  by (induction xs) auto

lemma findIndex_Some:
  "findIndex p xs = Some i \<Longrightarrow> i < length xs \<and> p (xs ! i) \<and> (\<forall>j<i. \<not> p (xs ! j))"
proof (induction xs arbitrary: i)
  case Nil
  then show ?case by simp
next
  case (Cons x xs)
  show ?case
  proof (cases "p x")
    case True
    with Cons.prems show ?thesis by simp
  next
    case False
    with Cons.prems obtain k where k: "findIndex p xs = Some k" and i: "i = Suc k"
      by auto
    from Cons.IH [OF k] have "k < length xs" "p (xs ! k)" "\<forall>j<k. \<not> p (xs ! j)" by auto
    then show ?thesis using False i by (auto simp: less_Suc_eq_0_disj)
  qed
qed

lemma same_key_iff: "same_key s l e \<longleftrightarrow> entry_key e = (toLowerCase s, toLowerCase l)"
  by (auto simp: same_key_def entry_key_def)

lemma entry_key_translation [simp]: "entry_key (e\<lparr>translation := t\<rparr>) = entry_key e"
  by (simp add: entry_key_def)

lemma map_key_update:
  "i < length es \<Longrightarrow> map entry_key (es[i := (es ! i)\<lparr>translation := t\<rparr>]) = map entry_key es"
  by (simp add: map_update list_update_same_conv)

lemma filter_distinct_key:
  assumes "distinct (map f xs)" and "i < length xs" and "f (xs ! i) = k"
  shows "filter (\<lambda>x. f x = k) xs = [xs ! i]"
  using assms
proof (induction xs arbitrary: i)
  case Nil
  then show ?case by simp
next
  case (Cons x xs)
  show ?case
  proof (cases i)
    case 0
    have "f x = k" and "f x \<notin> f ` set xs" using Cons.prems 0 by auto
    then have "\<forall>y\<in>set xs. f y \<noteq> k" by (metis imageI)
    then have "filter (\<lambda>x. f x = k) xs = []" by (simp add: filter_empty_conv)
    then show ?thesis using Cons.prems 0 by simp
  next
    case (Suc j)
    then have j: "j < length xs" "f (xs ! j) = k" using Cons.prems by auto
    then have "k \<in> f ` set xs" by (metis imageI nth_mem)
    then have "f x \<noteq> k" using Cons.prems(1) by auto
    then show ?thesis using Cons.IH [of j] Cons.prems(1) j Suc by simp
  qed
qed

text \<open>One call on a store with unique keys.\<close>

lemma addOrUpdate_step:
  assumes inv: "unique_keys (dictionaryEntries m)"
    and v: "sv (src, lang, t) = Inr (ps, pl, pt)"
  shows "\<exists>r m'. addOrUpdateDictionaryEntry sv src lang t m = (Inr r, m') \<and>
     unique_keys (dictionaryEntries m') \<and>
     (\<exists>e. filter (same_key ps pl) (dictionaryEntries m') = [e] \<and> translation e = pt) \<and>
     ((\<exists>e\<in>set (dictionaryEntries m). same_key ps pl e) \<longrightarrow>
        r = Updated_entry ps pl \<and>
        (\<exists>i<length (dictionaryEntries m). same_key ps pl (dictionaryEntries m ! i) \<and>
           dictionaryEntries m' =
             (dictionaryEntries m)[i := (dictionaryEntries m ! i)\<lparr>translation := pt\<rparr>])) \<and>
     (\<not> (\<exists>e\<in>set (dictionaryEntries m). same_key ps pl e) \<longrightarrow>
        r = Added_new_entry ps pl \<and>
        dictionaryEntries m' =
          dictionaryEntries m @ [\<lparr>source = ps, language = pl, translation = pt\<rparr>])"
proof (cases "findIndex (same_key ps pl) (dictionaryEntries m)")
  case None
  let ?es = "dictionaryEntries m"
  let ?new = "\<lparr>source = ps, language = pl, translation = pt\<rparr>"
  have no: "\<forall>e\<in>set ?es. \<not> same_key ps pl e" using None by (simp add: findIndex_None)
  have call: "addOrUpdateDictionaryEntry sv src lang t m =
        (Inr (Added_new_entry ps pl), m\<lparr>dictionaryEntries := ?es @ [?new]\<rparr>)"
    using None v by (simp add: addOrUpdateDictionaryEntry_def)
  have key_new: "entry_key ?new = (toLowerCase ps, toLowerCase pl)"
    by (simp add: entry_key_def)
  have "entry_key ?new \<notin> set (map entry_key ?es)"
    using no by (auto simp: same_key_iff key_new)
  then have u: "unique_keys (?es @ [?new])" using inv by (simp add: unique_keys_def)
  have "filter (same_key ps pl) ?es = []" using no by (simp add: filter_empty_conv)
  then have f: "filter (same_key ps pl) (?es @ [?new]) = [?new]"
    by (simp add: same_key_def)
  show ?thesis using call u f no by auto
next
  case (Some i)
  let ?es = "dictionaryEntries m"
  let ?es' = "?es[i := (?es ! i)\<lparr>translation := pt\<rparr>]"
  have i: "i < length ?es" and hit: "same_key ps pl (?es ! i)"
    using findIndex_Some [OF Some] by auto
  have call: "addOrUpdateDictionaryEntry sv src lang t m =
        (Inr (Updated_entry ps pl), m\<lparr>dictionaryEntries := ?es'\<rparr>)"
    using Some v by (simp add: addOrUpdateDictionaryEntry_def)
  have keys: "map entry_key ?es' = map entry_key ?es" using i by (rule map_key_update)
  then have u: "unique_keys ?es'" using inv by (simp add: unique_keys_def)
  have "entry_key (?es' ! i) = (toLowerCase ps, toLowerCase pl)"
    using i hit by (simp add: same_key_iff)
  then have "filter (\<lambda>e. entry_key e = (toLowerCase ps, toLowerCase pl)) ?es' = [?es' ! i]"
    using u i by (intro filter_distinct_key) (simp_all add: unique_keys_def)
  then have f: "filter (same_key ps pl) ?es' = [?es' ! i]"
    by (simp add: same_key_iff [abs_def])
  have tr: "translation (?es' ! i) = pt" using i by simp
  have ex: "\<exists>e\<in>set ?es. same_key ps pl e" using i hit by (metis nth_mem)
  show ?thesis using call u f tr ex i hit by auto
qed

text \<open>
  Claim C4. On a store in which no two entries have the same identity key (source and
  language, compared without regard to case, as the lookup compares them), two calls of
  \<^verbatim>\<open>addOrUpdateDictionaryEntry\<close> on one key both succeed, both leave a store with
  unique keys, and leave exactly one entry for that key, holding the translation of the
  second call; the second call reports an update. The first call overwrites the
  translation of the matching entry in place when the key is in the store, and appends
  a new entry when it is not.
\<close>

theorem addOrUpdate_unique_latest:
  assumes inv: "unique_keys (dictionaryEntries m)"
    and v1: "sv (src, lang, t1) = Inr (ps, pl, pt1)"
    and v2: "sv (src, lang, t2) = Inr (ps, pl, pt2)"
  shows "\<exists>r1 m1 r2 m2.
     addOrUpdateDictionaryEntry sv src lang t1 m = (Inr r1, m1) \<and>
     addOrUpdateDictionaryEntry sv src lang t2 m1 = (Inr r2, m2) \<and>
     unique_keys (dictionaryEntries m1) \<and> unique_keys (dictionaryEntries m2) \<and>
     (\<exists>e. filter (same_key ps pl) (dictionaryEntries m2) = [e] \<and> translation e = pt2) \<and>
     r2 = Updated_entry ps pl \<and>
     ((\<exists>e\<in>set (dictionaryEntries m). same_key ps pl e) \<longrightarrow>
        r1 = Updated_entry ps pl \<and>
        (\<exists>i<length (dictionaryEntries m). same_key ps pl (dictionaryEntries m ! i) \<and>
           dictionaryEntries m1 =
             (dictionaryEntries m)[i := (dictionaryEntries m ! i)\<lparr>translation := pt1\<rparr>])) \<and>
     (\<not> (\<exists>e\<in>set (dictionaryEntries m). same_key ps pl e) \<longrightarrow>
        r1 = Added_new_entry ps pl \<and>
        dictionaryEntries m1 =
          dictionaryEntries m @ [\<lparr>source = ps, language = pl, translation = pt1\<rparr>])"
proof -
  obtain r1 m1 where c1: "addOrUpdateDictionaryEntry sv src lang t1 m = (Inr r1, m1)"
    and u1: "unique_keys (dictionaryEntries m1)"
    and f1: "\<exists>e. filter (same_key ps pl) (dictionaryEntries m1) = [e] \<and> translation e = pt1"
    and hit1: "(\<exists>e\<in>set (dictionaryEntries m). same_key ps pl e) \<longrightarrow>
        r1 = Updated_entry ps pl \<and>
        (\<exists>i<length (dictionaryEntries m). same_key ps pl (dictionaryEntries m ! i) \<and>
           dictionaryEntries m1 =
             (dictionaryEntries m)[i := (dictionaryEntries m ! i)\<lparr>translation := pt1\<rparr>])"
    and miss1: "\<not> (\<exists>e\<in>set (dictionaryEntries m). same_key ps pl e) \<longrightarrow>
        r1 = Added_new_entry ps pl \<and>
        dictionaryEntries m1 =
          dictionaryEntries m @ [\<lparr>source = ps, language = pl, translation = pt1\<rparr>]"
    using addOrUpdate_step [of m sv src lang t1 ps pl pt1] inv v1 by blast
  obtain r2 m2 where c2: "addOrUpdateDictionaryEntry sv src lang t2 m1 = (Inr r2, m2)"
    and u2: "unique_keys (dictionaryEntries m2)"
    and f2: "\<exists>e. filter (same_key ps pl) (dictionaryEntries m2) = [e] \<and> translation e = pt2"
    and hit2: "(\<exists>e\<in>set (dictionaryEntries m1). same_key ps pl e) \<longrightarrow>
        r2 = Updated_entry ps pl \<and>
        (\<exists>i<length (dictionaryEntries m1). same_key ps pl (dictionaryEntries m1 ! i) \<and>
           dictionaryEntries m2 =
             (dictionaryEntries m1)[i := (dictionaryEntries m1 ! i)\<lparr>translation := pt2\<rparr>])"
    using addOrUpdate_step [of m1 sv src lang t2 ps pl pt2] u1 v2 by blast
  from f1 obtain e where "filter (same_key ps pl) (dictionaryEntries m1) = [e]" by blast
  then have "e \<in> set (filter (same_key ps pl) (dictionaryEntries m1))" by simp
  then have "\<exists>e\<in>set (dictionaryEntries m1). same_key ps pl e" by auto
  with hit2 have r2: "r2 = Updated_entry ps pl" by blast
  show ?thesis using c1 c2 u1 u2 f2 r2 hit1 miss1 by blast
qed

theorem addOrUpdate_unique_latest_witness:
  "addOrUpdateDictionaryEntry Inr ''Hello'' ''FR'' ''salut''
     (snd (addOrUpdateDictionaryEntry Inr ''Hello'' ''FR'' ''bonjour''
        (example_manager\<lparr>dictionaryEntries :=
           [\<lparr>source = ''world'', language = ''fr'', translation = ''monde''\<rparr>,
            \<lparr>source = ''hello'', language = ''fr'', translation = ''allo''\<rparr>]\<rparr>))) =
   (Inr (Updated_entry ''Hello'' ''FR''),
    example_manager\<lparr>dictionaryEntries :=
       [\<lparr>source = ''world'', language = ''fr'', translation = ''monde''\<rparr>,
        \<lparr>source = ''hello'', language = ''fr'', translation = ''salut''\<rparr>]\<rparr>) \<and>
   unique_keys
     [\<lparr>source = ''world'', language = ''fr'', translation = ''monde''\<rparr>,
      \<lparr>source = ''hello'', language = ''fr'', translation = ''salut''\<rparr>]"
proof -
  let ?es = "[\<lparr>source = ''world'', language = ''fr'', translation = ''monde''\<rparr>,
            \<lparr>source = ''hello'', language = ''fr'', translation = ''allo''\<rparr>]"
  let ?m = "example_manager\<lparr>dictionaryEntries := ?es\<rparr>"
  have low: "toLowerCase ''world'' = ''world''" "toLowerCase ''hello'' = ''hello''"
    "toLowerCase ''Hello'' = ''hello''" "toLowerCase ''fr'' = ''fr''" "toLowerCase ''FR'' = ''fr''"
    by code_simp+
  have inv: "unique_keys (dictionaryEntries ?m)"
    by (simp add: unique_keys_def entry_key_def low)
  have v1: "Inr (''Hello'', ''FR'', ''bonjour'') =
            (Inr (''Hello'', ''FR'', ''bonjour'') :: js_error + string \<times> string \<times> string)" ..
  have v2: "Inr (''Hello'', ''FR'', ''salut'') =
            (Inr (''Hello'', ''FR'', ''salut'') :: js_error + string \<times> string \<times> string)" ..
  obtain r1 m1 r2 m2 where
    c1: "addOrUpdateDictionaryEntry Inr ''Hello'' ''FR'' ''bonjour'' ?m = (Inr r1, m1)" and
    c2: "addOrUpdateDictionaryEntry Inr ''Hello'' ''FR'' ''salut'' m1 = (Inr r2, m2)" and
    u2: "unique_keys (dictionaryEntries m2)" and
    r2: "r2 = Updated_entry ''Hello'' ''FR''"
    using addOrUpdate_unique_latest [of ?m Inr "''Hello''" "''FR''" "''bonjour''" "''Hello''" "''FR''"
        "''bonjour''" "''salut''" "''salut''", OF inv v1 v2] by blast
  have m1: "m1 = example_manager\<lparr>dictionaryEntries :=
       [\<lparr>source = ''world'', language = ''fr'', translation = ''monde''\<rparr>,
        \<lparr>source = ''hello'', language = ''fr'', translation = ''bonjour''\<rparr>]\<rparr>"
    using c1 by (simp add: addOrUpdateDictionaryEntry_def same_key_def low)
  have m2: "m2 = example_manager\<lparr>dictionaryEntries :=
       [\<lparr>source = ''world'', language = ''fr'', translation = ''monde''\<rparr>,
        \<lparr>source = ''hello'', language = ''fr'', translation = ''salut''\<rparr>]\<rparr>"
    using c2 unfolding m1 by (simp add: addOrUpdateDictionaryEntry_def same_key_def low)
  show ?thesis using c1 c2 u2 r2 unfolding m2 by simp
qed

section \<open>Saving and loading\<close>



section \<open>Exporting the CSV\<close>






end
